theory Spec2Isabelle
  imports Complex_Main
begin

section \<open>Data model of the health analytics engine\<close>

text \<open>
  The analyzer (backend/analytics/health_analyzer.py) reads a telemetry snapshot and the
  two history buffers of the data store. Python floats are modelled as \<^typ>\<open>real\<close>:
  the rules compare values with \<open><\<close> and \<open>>\<close>, which is exact on floats, and the one
  subtraction (the battery drop) is taken exactly. For SoC values of at least 4, as the
  simulator's clamp to [5, 100] gives them, the float subtraction is itself exact wherever
  its result is near the threshold 5, so the comparison \<open>drop > 5.0\<close> is the same.

  Modelled from the spec: the classes of backend/models/telemetry.py (\<open>AlertSeverity\<close>,
  \<open>AlertModel\<close>, \<open>BatteryHealth\<close>, \<open>TireStatus\<close>, \<open>VehicleTelemetry\<close>,
  \<open>SimulationStatus\<close>) and the data store of backend/services/data_store.py are not among
  the sources. The records below have the fields that the constructor calls and attribute
  reads of health_analyzer.py and vehicle_simulator.py use, as the data model of the
  specification lists them. The fields \<open>id\<close>, \<open>value\<close> and \<open>timestamp\<close> of an alert are
  named \<open>alert_id\<close>, \<open>alert_value\<close> and \<open>alert_timestamp\<close>.
\<close>

datatype py_error = IndexError

datatype AlertSeverity = WARNING | CRITICAL

text \<open>
  A message is an f-string. It is kept as the sequence of its parts: literal text,
  a float formatted with \<open>:.1f\<close>, an integer formatted in decimal.
\<close>

datatype msg_part = Txt string | Fixed1 real | Int_part int

record AlertModel =
  alert_id :: string
  alert_type :: string
  severity :: AlertSeverity
  message :: "msg_part list"
  signal :: string
  alert_value :: real
  threshold :: string
  alert_timestamp :: string

record BatteryHealth =
  soc :: real
  voltage :: real
  temperature :: real
  health_status :: string

record TireStatus =
  front_left :: real
  front_right :: real
  rear_left :: real
  rear_right :: real

record VehicleTelemetry =
  timestamp :: string
  speed :: real
  battery :: BatteryHealth
  tires :: TireStatus
  odometer :: real
  engine_status :: string

text \<open>
  A history entry is the dict \<open>{"timestamp": ..., "soc": ...}\<close> or
  \<open>{"timestamp": ..., "speed": ...}\<close>; the analyzer reads only the value. Of the store
  it reads the two lists \<open>battery_history\<close> and \<open>speed_history\<close>, oldest entry first.
\<close>

record history_entry =
  entry_timestamp :: real
  entry_value :: real

record store =
  battery_history :: "history_entry list"
  speed_history :: "history_entry list"

text \<open>
  \<open>uuid.uuid4()\<close> is an effect: every call returns a fresh identifier. The source of
  identifiers is the sequence of the values the successive calls return; a call reads the
  first and leaves the rest.
\<close>

type_synonym uuid_source = "nat \<Rightarrow> string"

definition uuid4 :: "uuid_source \<Rightarrow> string \<times> uuid_source" where
  "uuid4 ids = (ids 0, \<lambda>n. ids (Suc n))"

section \<open>The three rules\<close>

definition tire_map :: "VehicleTelemetry \<Rightarrow> (string \<times> string \<times> real) list" where
  "tire_map telemetry =
     [(''tire_pressure_fl'', ''Front Left'', front_left (tires telemetry)),
      (''tire_pressure_fr'', ''Front Right'', front_right (tires telemetry)),
      (''tire_pressure_rl'', ''Rear Left'', rear_left (tires telemetry)),
      (''tire_pressure_rr'', ''Rear Right'', rear_right (tires telemetry))]"

definition tire_alert :: "VehicleTelemetry \<Rightarrow> string \<Rightarrow> string \<Rightarrow> real \<Rightarrow> string \<Rightarrow> AlertModel" where
  "tire_alert telemetry signal_id label pressure uid =
     \<lparr>alert_id = uid,
      alert_type = ''tire_pressure_low'',
      severity = CRITICAL,
      message = [Txt ''Possible Tire Failure: '', Txt label, Txt '' tire pressure at '',
                 Fixed1 pressure, Txt '' PSI (below 25 PSI threshold)''],
      signal = signal_id,
      alert_value = pressure,
      threshold = ''< 25 PSI'',
      alert_timestamp = timestamp telemetry\<rparr>"

text \<open>The loop over \<open>tire_map.items()\<close>, in insertion order, with the alerts so far
  and the identifier source as its state.\<close>

fun tire_loop :: "VehicleTelemetry \<Rightarrow> (string \<times> string \<times> real) list \<Rightarrow>
    AlertModel list \<Rightarrow> uuid_source \<Rightarrow> AlertModel list \<times> uuid_source" where
  "tire_loop telemetry [] alerts ids = (alerts, ids)"
| "tire_loop telemetry ((signal_id, label, pressure) # rest) alerts ids =
     (if pressure < 25.0
      then (case uuid4 ids of (uid, ids') \<Rightarrow>
              tire_loop telemetry rest
                (alerts @ [tire_alert telemetry signal_id label pressure uid]) ids')
      else tire_loop telemetry rest alerts ids)"

definition check_tire_pressure :: "VehicleTelemetry \<Rightarrow> uuid_source \<Rightarrow>
    AlertModel list \<times> uuid_source" where
  "check_tire_pressure telemetry ids = tire_loop telemetry (tire_map telemetry) [] ids"

text \<open>\<open>history[0]\<close> raises IndexError on an empty list.\<close>

definition index0 :: "'a list \<Rightarrow> py_error + 'a" where
  "index0 xs = (case xs of [] \<Rightarrow> Inl IndexError | x # _ \<Rightarrow> Inr x)"

definition battery_alert :: "VehicleTelemetry \<Rightarrow> real \<Rightarrow> real \<Rightarrow> real \<Rightarrow> string \<Rightarrow> AlertModel" where
  "battery_alert telemetry soc_drop oldest_soc current_soc uid =
     \<lparr>alert_id = uid,
      alert_type = ''battery_degradation'',
      severity = CRITICAL,
      message = [Txt ''Battery Degradation Alert: SoC dropped '', Fixed1 soc_drop,
                 Txt ''% (from '', Fixed1 oldest_soc, Txt ''% to '', Fixed1 current_soc,
                 Txt ''%)''],
      signal = ''battery_soc'',
      alert_value = current_soc,
      threshold = ''> 5% drop in monitoring window'',
      alert_timestamp = timestamp telemetry\<rparr>"

definition check_battery_degradation :: "VehicleTelemetry \<Rightarrow> store \<Rightarrow> uuid_source \<Rightarrow>
    py_error + (AlertModel option \<times> uuid_source)" where
  "check_battery_degradation telemetry st ids =
     (let history = battery_history st in
      if length history < 2 then Inr (None, ids)
      else (case index0 history of
              Inl e \<Rightarrow> Inl e
            | Inr oldest \<Rightarrow>
                (let oldest_soc = entry_value oldest;
                     current_soc = soc (battery telemetry);
                     soc_drop = oldest_soc - current_soc
                 in if soc_drop > 5.0
                    then (case uuid4 ids of (uid, ids') \<Rightarrow>
                            Inr (Some (battery_alert telemetry soc_drop oldest_soc current_soc uid), ids'))
                    else Inr (None, ids))))"

text \<open>\<open>history[-10:]\<close>: the last ten entries, the whole list when it is shorter.\<close>

definition last_n :: "nat \<Rightarrow> 'a list \<Rightarrow> 'a list" where
  "last_n n xs = drop (length xs - n) xs"

definition speed_alert :: "VehicleTelemetry \<Rightarrow> string \<Rightarrow> AlertModel" where
  "speed_alert telemetry uid =
     \<lparr>alert_id = uid,
      alert_type = ''high_speed_stress'',
      severity = WARNING,
      message = [Txt ''High Speed Stress Warning: Vehicle sustained speed above 100 km/h (current: '',
                 Fixed1 (speed telemetry), Txt '' km/h)''],
      signal = ''speed'',
      alert_value = speed telemetry,
      threshold = ''> 100 km/h sustained for 10+ seconds'',
      alert_timestamp = timestamp telemetry\<rparr>"

definition check_high_speed :: "VehicleTelemetry \<Rightarrow> store \<Rightarrow> uuid_source \<Rightarrow>
    AlertModel option \<times> uuid_source" where
  "check_high_speed telemetry st ids =
     (let history = speed_history st in
      if length history < 10 then (None, ids)
      else (let recent = last_n 10 history;
                all_high = list_all (\<lambda>h. entry_value h > 100) recent
            in if all_high
               then (case uuid4 ids of (uid, ids') \<Rightarrow> (Some (speed_alert telemetry uid), ids'))
               else (None, ids)))"

text \<open>\<open>if alert: alerts.append(alert)\<close>\<close>

definition append_if :: "AlertModel list \<Rightarrow> AlertModel option \<Rightarrow> AlertModel list" where
  "append_if alerts alert = (case alert of None \<Rightarrow> alerts | Some a \<Rightarrow> alerts @ [a])"

definition analyze :: "VehicleTelemetry \<Rightarrow> store \<Rightarrow> uuid_source \<Rightarrow>
    py_error + (AlertModel list \<times> uuid_source)" where
  "analyze telemetry st ids =
     (case check_tire_pressure telemetry ids of (tire_alerts, ids1) \<Rightarrow>
        (let alerts = [] @ tire_alerts in
         case check_battery_degradation telemetry st ids1 of
           Inl e \<Rightarrow> Inl e
         | Inr (alert, ids2) \<Rightarrow>
             (let alerts = append_if alerts alert in
              case check_high_speed telemetry st ids2 of (alert, ids3) \<Rightarrow>
                Inr (append_if alerts alert, ids3))))"

text \<open>The value the caller of \<open>analyze\<close> receives: the list of alerts.\<close>

definition analyze_alerts :: "VehicleTelemetry \<Rightarrow> store \<Rightarrow> uuid_source \<Rightarrow>
    py_error + AlertModel list" where
  "analyze_alerts telemetry st ids =
     (case analyze telemetry st ids of Inl e \<Rightarrow> Inl e | Inr (alerts, ids') \<Rightarrow> Inr alerts)"

section \<open>Alerts up to their identifier\<close>

text \<open>
  The identifier of an alert is the only field that does not come from the snapshot and
  the store. \<open>erase_id\<close> blanks it, so that alerts can be compared on all other fields.
\<close>

definition erase_id :: "AlertModel \<Rightarrow> AlertModel" where
  "erase_id a = a\<lparr>alert_id := ''''\<rparr>"

text \<open>What each rule contributes to the result, with identifiers blanked.\<close>

definition tire_part :: "VehicleTelemetry \<Rightarrow> AlertModel list" where
  "tire_part t =
     map (\<lambda>(s, l, p). tire_alert t s l p '''') (filter (\<lambda>(s, l, p). p < 25) (tire_map t))"

definition battery_part :: "VehicleTelemetry \<Rightarrow> store \<Rightarrow> AlertModel list" where
  "battery_part t st =
     (case battery_history st of
        oldest # e # rest \<Rightarrow>
          (if entry_value oldest - soc (battery t) > 5
           then [battery_alert t (entry_value oldest - soc (battery t)) (entry_value oldest)
                   (soc (battery t)) '''']
           else [])
      | _ \<Rightarrow> [])"

definition speed_part :: "VehicleTelemetry \<Rightarrow> store \<Rightarrow> AlertModel list" where
  "speed_part t st =
     (if 10 \<le> length (speed_history st) \<and>
         list_all (\<lambda>h. entry_value h > 100) (last_n 10 (speed_history st))
      then [speed_alert t ''''] else [])"

section \<open>Sample inputs\<close>

text \<open>
  The inputs of the combined scenario of tests/test_analytics.py: front-left tire at 20 PSI,
  SoC 70 after a history starting at 80, and a speed history at 120 km/h throughout.
\<close>

definition demo_telemetry :: VehicleTelemetry where
  "demo_telemetry =
     \<lparr>timestamp = ''2024-01-01T00:00:15'',
      speed = 120,
      battery = \<lparr>soc = 70, voltage = 385, temperature = 25, health_status = ''Good''\<rparr>,
      tires = \<lparr>front_left = 20, front_right = 31.5, rear_left = 31.8, rear_right = 25\<rparr>,
      odometer = 15000,
      engine_status = ''running''\<rparr>"

definition fast :: "real \<Rightarrow> history_entry" where
  "fast ts = \<lparr>entry_timestamp = ts, entry_value = 120\<rparr>"

definition demo_store :: store where
  "demo_store =
     \<lparr>battery_history = [\<lparr>entry_timestamp = 0, entry_value = 80\<rparr>,
                          \<lparr>entry_timestamp = 10, entry_value = 76\<rparr>],
      speed_history = [\<lparr>entry_timestamp = 4, entry_value = 90\<rparr>,
                       fast 5, fast 6, fast 7, fast 8, fast 9, fast 10, fast 11, fast 12,
                       fast 13, fast 14]\<rparr>"

text \<open>A store whose buffers are still short: one SoC entry, nine speed entries.\<close>

definition young_store :: store where
  "young_store =
     \<lparr>battery_history = [\<lparr>entry_timestamp = 0, entry_value = 80\<rparr>],
      speed_history = [fast 6, fast 7, fast 8, fast 9, fast 10, fast 11, fast 12,
                       fast 13, fast 14]\<rparr>"

text \<open>
  The stable scenario of tests/test_analytics.py: history 85.0, 84.5 and SoC 84. And the
  sample snapshot with SoC 75, a drop of exactly 5 from the oldest entry of the sample store.
\<close>

definition stable_store :: store where
  "stable_store =
     \<lparr>battery_history = [\<lparr>entry_timestamp = 0, entry_value = 85\<rparr>,
                          \<lparr>entry_timestamp = 10, entry_value = 84.5\<rparr>],
      speed_history = []\<rparr>"

definition stable_telemetry :: VehicleTelemetry where
  "stable_telemetry = demo_telemetry\<lparr>battery := (battery demo_telemetry)\<lparr>soc := 84\<rparr>\<rparr>"

definition edge_telemetry :: VehicleTelemetry where
  "edge_telemetry = demo_telemetry\<lparr>battery := (battery demo_telemetry)\<lparr>soc := 75\<rparr>\<rparr>"

text \<open>Two runs of the identifier generator; no identifier occurs twice.\<close>

definition ids_first :: uuid_source where
  "ids_first n = CHR ''a'' # replicate n (CHR ''x'')"

definition ids_second :: uuid_source where
  "ids_second n = CHR ''b'' # replicate n (CHR ''x'')"

section \<open>The vehicle simulator\<close>

text \<open>
  backend/simulator/vehicle_simulator.py. \<open>SimulationStatus\<close> is the status object the
  simulator returns and keeps in \<open>store.simulation\<close>, with the four fields of the
  specification's data model; \<open>status_start_time\<close> is \<open>None\<close> where the constructor
  call passes no \<open>start_time\<close>.
\<close>

record SimulationStatus =
  status_running :: bool
  status_tick_count :: int
  status_start_time :: "string option"
  status_message :: "msg_part list"

text \<open>
  The fields of \<open>VehicleSimulator\<close>: \<open>sim_task\<close> tells whether \<open>self._task\<close> holds a
  task, \<open>store_simulation\<close> is \<open>self.store.simulation\<close>.
\<close>

record simulator =
  sim_running :: bool
  sim_tick_count :: int
  sim_task :: bool
  sim_speed :: real
  sim_battery_soc :: real
  sim_battery_voltage :: real
  sim_battery_temp :: real
  sim_tire_fl :: real
  sim_tire_fr :: real
  sim_tire_rl :: real
  sim_tire_rr :: real
  sim_odometer :: real
  sim_speed_direction :: int
  store_simulation :: SimulationStatus

definition init_simulator :: "SimulationStatus \<Rightarrow> simulator" where
  "init_simulator status =
     \<lparr>sim_running = False, sim_tick_count = 0, sim_task = False,
      sim_speed = 0.0, sim_battery_soc = 95.0, sim_battery_voltage = 400.0,
      sim_battery_temp = 25.0, sim_tire_fl = 32.0, sim_tire_fr = 31.5, sim_tire_rl = 31.8,
      sim_tire_rr = 32.2, sim_odometer = 15000.0, sim_speed_direction = 1,
      store_simulation = status\<rparr>"

text \<open>
  \<open>start\<close> and \<open>stop\<close> return the status and the new simulator state. \<open>now\<close> is the
  value of \<open>datetime.utcnow().isoformat()\<close> at the call.
\<close>

definition start :: "string \<Rightarrow> simulator \<Rightarrow> SimulationStatus \<times> simulator" where
  "start now s =
     (if sim_running s
      then (\<lparr>status_running = True,
             status_tick_count = sim_tick_count s,
             status_start_time = status_start_time (store_simulation s),
             status_message = [Txt ''Simulator already running'']\<rparr>, s)
      else (let s1 = s\<lparr>sim_running := True, sim_tick_count := 0\<rparr>;
                start_time = now;
                s2 = s1\<lparr>store_simulation :=
                          \<lparr>status_running = True,
                           status_tick_count = 0,
                           status_start_time = Some start_time,
                           status_message = [Txt ''Simulator started'']\<rparr>\<rparr>;
                s3 = s2\<lparr>sim_task := True\<rparr>
            in (store_simulation s3, s3)))"

definition stop :: "simulator \<Rightarrow> SimulationStatus \<times> simulator" where
  "stop s =
     (if \<not> sim_running s
      then (\<lparr>status_running = False,
             status_tick_count = sim_tick_count s,
             status_start_time = None,
             status_message = [Txt ''Simulator not running'']\<rparr>, s)
      else (let s1 = s\<lparr>sim_running := False\<rparr>;
                s2 = (if sim_task s1 then s1\<lparr>sim_task := False\<rparr> else s1);
                s3 = s2\<lparr>store_simulation :=
                          \<lparr>status_running = False,
                           status_tick_count = sim_tick_count s2,
                           status_start_time = None,
                           status_message = [Txt ''Simulator stopped after '',
                                             Int_part (sim_tick_count s2), Txt '' ticks'']\<rparr>\<rparr>
            in (store_simulation s3, s3)))"

subsection \<open>One tick\<close>

text \<open>
  The random values of one call of \<open>_generate_telemetry\<close>, in the order of the calls.
  A field ending in \<open>_r\<close> is the result of \<open>random.random()\<close>, which lies in \<open>[0, 1)\<close>:
  drawn directly (the three event tests) or inside \<open>random.uniform(a, b)\<close>, which
  returns \<open>a + (b - a) * random()\<close>. \<open>tire_choice\<close> is the result of \<open>random.choice\<close>,
  and \<open>now\<close> the timestamp of the snapshot. The draws of a branch that is not taken are
  not read.
\<close>

record draws =
  flip_r :: real
  delta_r :: real
  plateau_r :: real
  decay_r :: real
  soc_event_r :: real
  soc_drop_r :: real
  temp_r :: real
  fl_r :: real
  fr_r :: real
  rl_r :: real
  rr_r :: real
  tire_event_r :: real
  tire_choice :: string
  tire_drop_r :: real
  now :: string

definition uniform :: "real \<Rightarrow> real \<Rightarrow> real \<Rightarrow> real" where
  "uniform a b r = a + (b - a) * r"

text \<open>
  \<open>round(x, 1)\<close>: the nearest multiple of one tenth, a tie going to the even one.
\<close>

definition round_half_even :: "real \<Rightarrow> int" where
  "round_half_even y =
     (let f = \<lfloor>y\<rfloor>; d = y - of_int f
      in if d < 1 / 2 then f else if 1 / 2 < d then f + 1 else if even f then f else f + 1)"

definition round1 :: "real \<Rightarrow> real" where
  "round1 x = of_int (round_half_even (x * 10)) / 10"

text \<open>The condition of the plateau: \<open>self._tick_count % 50 < 15 and self._tick_count > 20\<close>.\<close>

definition plateau :: "int \<Rightarrow> bool" where
  "plateau tick_count \<longleftrightarrow> tick_count mod 50 < 15 \<and> tick_count > 20"

definition update_speed :: "draws \<Rightarrow> simulator \<Rightarrow> simulator" where
  "update_speed d s =
     (let s1 = (if flip_r d < 0.05
                then s\<lparr>sim_speed_direction := sim_speed_direction s * (- 1)\<rparr> else s);
          speed_delta = uniform 1.0 5.0 (delta_r d) * of_int (sim_speed_direction s1);
          s2 = s1\<lparr>sim_speed := max 0 (min 140 (sim_speed s1 + speed_delta))\<rparr>
      in if plateau (sim_tick_count s2)
         then s2\<lparr>sim_speed := uniform 105 130 (plateau_r d)\<rparr>
         else s2)"

definition update_battery :: "draws \<Rightarrow> simulator \<Rightarrow> simulator" where
  "update_battery d s =
     (let s1 = s\<lparr>sim_battery_soc := sim_battery_soc s - uniform 0.05 0.2 (decay_r d)\<rparr>;
          s2 = (if soc_event_r d < 0.02
                then s1\<lparr>sim_battery_soc := sim_battery_soc s1 - uniform 5.0 8.0 (soc_drop_r d)\<rparr>
                else s1);
          s3 = s2\<lparr>sim_battery_soc := max 5.0 (min 100.0 (sim_battery_soc s2))\<rparr>;
          s4 = s3\<lparr>sim_battery_voltage := 350 + (sim_battery_soc s3 / 100) * 50\<rparr>
      in s4\<lparr>sim_battery_temp := 25 + uniform (- 2) 5 (temp_r d)\<rparr>)"

definition health_status_of :: "simulator \<Rightarrow> string" where
  "health_status_of s =
     (if sim_battery_soc s < 20 then ''Low''
      else if sim_battery_soc s < 50 then ''Fair''
      else ''Good'')"

text \<open>The tire section in its three steps: fluctuation, drop event, clamp.\<close>

definition fluctuate_tires :: "draws \<Rightarrow> simulator \<Rightarrow> simulator" where
  "fluctuate_tires d s =
     s\<lparr>sim_tire_fl := sim_tire_fl s + uniform (- 0.1) 0.1 (fl_r d),
       sim_tire_fr := sim_tire_fr s + uniform (- 0.1) 0.1 (fr_r d),
       sim_tire_rl := sim_tire_rl s + uniform (- 0.1) 0.1 (rl_r d),
       sim_tire_rr := sim_tire_rr s + uniform (- 0.1) 0.1 (rr_r d)\<rparr>"

definition tire_drop_event :: "draws \<Rightarrow> simulator \<Rightarrow> simulator" where
  "tire_drop_event d s =
     (if tire_event_r d < 0.01
      then (let choice = tire_choice d;
                amount = uniform 8 15 (tire_drop_r d)
            in if choice = ''fl'' then s\<lparr>sim_tire_fl := sim_tire_fl s - amount\<rparr>
               else if choice = ''fr'' then s\<lparr>sim_tire_fr := sim_tire_fr s - amount\<rparr>
               else if choice = ''rl'' then s\<lparr>sim_tire_rl := sim_tire_rl s - amount\<rparr>
               else s\<lparr>sim_tire_rr := sim_tire_rr s - amount\<rparr>)
      else s)"

definition clamp_tires :: "simulator \<Rightarrow> simulator" where
  "clamp_tires s =
     s\<lparr>sim_tire_fl := max 15.0 (min 40.0 (sim_tire_fl s)),
       sim_tire_fr := max 15.0 (min 40.0 (sim_tire_fr s)),
       sim_tire_rl := max 15.0 (min 40.0 (sim_tire_rl s)),
       sim_tire_rr := max 15.0 (min 40.0 (sim_tire_rr s))\<rparr>"

definition update_tires :: "draws \<Rightarrow> simulator \<Rightarrow> simulator" where
  "update_tires d s = clamp_tires (tire_drop_event d (fluctuate_tires d s))"

definition update_odometer :: "simulator \<Rightarrow> simulator" where
  "update_odometer s = s\<lparr>sim_odometer := sim_odometer s + sim_speed s / 3600\<rparr>"

definition snapshot :: "draws \<Rightarrow> simulator \<Rightarrow> VehicleTelemetry" where
  "snapshot d s =
     \<lparr>timestamp = now d,
      speed = round1 (sim_speed s),
      battery = \<lparr>soc = round1 (sim_battery_soc s),
                 voltage = round1 (sim_battery_voltage s),
                 temperature = round1 (sim_battery_temp s),
                 health_status = health_status_of s\<rparr>,
      tires = \<lparr>front_left = round1 (sim_tire_fl s),
               front_right = round1 (sim_tire_fr s),
               rear_left = round1 (sim_tire_rl s),
               rear_right = round1 (sim_tire_rr s)\<rparr>,
      odometer = round1 (sim_odometer s),
      engine_status = ''running''\<rparr>"

definition generate_telemetry :: "draws \<Rightarrow> simulator \<Rightarrow> VehicleTelemetry \<times> simulator" where
  "generate_telemetry d s =
     (let s' = update_odometer (update_tires d (update_battery d (update_speed d s)))
      in (snapshot d s', s'))"

text \<open>
  One iteration of \<open>_simulation_loop\<close>, as far as it concerns the simulator: the tick
  counter, the snapshot, and the tick count of the status. The snapshot is returned to be
  stored and analysed; the data store itself (backend/services/data_store.py) is not part
  of the sources at hand.
\<close>

definition tick :: "draws \<Rightarrow> simulator \<Rightarrow> VehicleTelemetry \<times> simulator" where
  "tick d s =
     (let s1 = s\<lparr>sim_tick_count := sim_tick_count s + 1\<rparr>
      in case generate_telemetry d s1 of (telemetry, s2) \<Rightarrow>
           (telemetry,
            s2\<lparr>store_simulation :=
                 (store_simulation s2)\<lparr>status_tick_count := sim_tick_count s2\<rparr>\<rparr>))"

text \<open>\<open>while self._running\<close>, for as many iterations as there are draws.\<close>

fun run_ticks :: "draws list \<Rightarrow> simulator \<Rightarrow> VehicleTelemetry list \<times> simulator" where
  "run_ticks [] s = ([], s)"
| "run_ticks (d # ds) s =
     (if sim_running s
      then (case tick d s of (telemetry, s1) \<Rightarrow>
              (case run_ticks ds s1 of (rest, s2) \<Rightarrow> (telemetry # rest, s2)))
      else ([], s))"

text \<open>The clamp invariant of a snapshot, in the words of the specification.\<close>

definition within_clamps :: "VehicleTelemetry \<Rightarrow> bool" where
  "within_clamps t \<longleftrightarrow>
     0 \<le> speed t \<and> speed t \<le> 140 \<and>
     5 \<le> soc (battery t) \<and> soc (battery t) \<le> 100 \<and>
     15 \<le> front_left (tires t) \<and> front_left (tires t) \<le> 40 \<and>
     15 \<le> front_right (tires t) \<and> front_right (tires t) \<le> 40 \<and>
     15 \<le> rear_left (tires t) \<and> rear_left (tires t) \<le> 40 \<and>
     15 \<le> rear_right (tires t) \<and> rear_right (tires t) \<le> 40"

definition unit_draw :: "real \<Rightarrow> bool" where
  "unit_draw r \<longleftrightarrow> 0 \<le> r \<and> r < 1"

section \<open>The alerts endpoint\<close>

text \<open>
  backend/api/vehicle_routes.py, \<open>get_alerts\<close>. The query parameter \<open>limit\<close> is declared
  \<open>Query(50, ge=1, le=200)\<close>: 50 when absent, and a request whose value is below 1 or above
  200 is answered with a validation error (HTTP 422) without calling the store.
\<close>

datatype http_error = Unprocessable_Entity

definition effective_limit :: "int option \<Rightarrow> int" where
  "effective_limit limit_param = (case limit_param of None \<Rightarrow> 50 | Some n \<Rightarrow> n)"

text \<open>
  Modelled from the spec: \<open>DataStore.get_alerts\<close> (backend/services/data_store.py is not
  among the sources). The specification says: \<open>append_alert\<close> appends to the alert log,
  newest last; \<open>get_alerts(limit)\<close> returns the most recent \<open>limit\<close> alerts,
  most-recent-first.
\<close>

definition store_get_alerts :: "AlertModel list \<Rightarrow> int \<Rightarrow> AlertModel list" where
  "store_get_alerts alert_log limit = take (nat limit) (rev alert_log)"

definition get_alerts :: "int option \<Rightarrow> AlertModel list \<Rightarrow> http_error + AlertModel list" where
  "get_alerts limit_param alert_log =
     (let limit = effective_limit limit_param
      in if limit < 1 \<or> 200 < limit then Inl Unprocessable_Entity
         else Inr (store_get_alerts alert_log limit))"

section \<open>Sample simulator inputs\<close>

definition idle_sim :: simulator where
  "idle_sim =
     init_simulator \<lparr>status_running = False, status_tick_count = 0, status_start_time = None,
                      status_message = [Txt ''Simulator idle'']\<rparr>"

definition running_sim :: simulator where
  "running_sim = snd (start ''2024-01-01T00:00:00'' idle_sim)"

text \<open>A running simulator after 49 ticks: the next tick, 50, opens a plateau.\<close>

definition cruising_sim :: simulator where
  "cruising_sim = running_sim\<lparr>sim_tick_count := 49, sim_speed := 60\<rparr>"

text \<open>The same with a low battery and a soft rear-right tire, so that the clamps bite.\<close>

definition worn_sim :: simulator where
  "worn_sim = cruising_sim\<lparr>sim_battery_soc := 6, sim_tire_rr := 20\<rparr>"

text \<open>Draws under which no event fires, and draws under which both fault events fire.\<close>

definition calm_draws :: draws where
  "calm_draws =
     \<lparr>flip_r = 0.5, delta_r = 0.5, plateau_r = 0.2, decay_r = 0.5, soc_event_r = 0.5,
      soc_drop_r = 0.5, temp_r = 0.5, fl_r = 0.5, fr_r = 0.5, rl_r = 0.5, rr_r = 0.5,
      tire_event_r = 0.5, tire_choice = ''fl'', tire_drop_r = 0.5,
      now = ''2024-01-01T00:00:50''\<rparr>"

definition fault_draws :: draws where
  "fault_draws =
     \<lparr>flip_r = 0.01, delta_r = 0.9, plateau_r = 0.99, decay_r = 0.9, soc_event_r = 0.01,
      soc_drop_r = 0.9, temp_r = 0.5, fl_r = 0.1, fr_r = 0.1, rl_r = 0.1, rr_r = 0.1,
      tire_event_r = 0.005, tire_choice = ''rr'', tire_drop_r = 0.9,
      now = ''2024-01-01T00:00:51''\<rparr>"

text \<open>An alert log of three alerts, oldest first.\<close>

definition demo_log :: "AlertModel list" where
  "demo_log =
     [tire_alert demo_telemetry ''tire_pressure_fl'' ''Front Left'' 20 ''id-1'',
      battery_alert demo_telemetry 10 80 70 ''id-2'',
      speed_alert demo_telemetry ''id-3'']"

section \<open>Properties of the analyzer\<close>



lemma erase_tire_alert: "erase_id (tire_alert t s l p u) = tire_alert t s l p ''''"
  by (simp add: erase_id_def tire_alert_def)

lemma erase_battery_alert: "erase_id (battery_alert t d a b u) = battery_alert t d a b ''''"
  by (simp add: erase_id_def battery_alert_def)

lemma erase_speed_alert: "erase_id (speed_alert t u) = speed_alert t ''''"
  by (simp add: erase_id_def speed_alert_def)

lemma tire_loop_erased:
  "map erase_id (fst (tire_loop t xs acc ids)) =
     map erase_id acc @
     map (\<lambda>(s, l, p). tire_alert t s l p '''') (filter (\<lambda>(s, l, p). p < 25) xs)"
proof (induction xs arbitrary: acc ids)
  case Nil
  show ?case by simp
next
  case (Cons x xs)
  obtain s l p where x: "x = (s, l, p)" by (cases x) auto
  show ?case
    by (simp add: x Cons.IH uuid4_def erase_tire_alert)
qed

lemma check_tire_erased: "map erase_id (fst (check_tire_pressure t ids)) = tire_part t"
  by (simp add: check_tire_pressure_def tire_part_def tire_loop_erased)

lemma index0_Cons: "index0 (x # xs) = Inr x"
  by (simp add: index0_def)

lemma check_battery_erased:
  "\<exists>b ids'. check_battery_degradation t st ids = Inr (b, ids') \<and>
     map erase_id (append_if [] b) = battery_part t st"
proof (cases "battery_history st")
  case Nil
  then show ?thesis
    by (simp add: check_battery_degradation_def battery_part_def append_if_def)
next
  case (Cons oldest r)
  show ?thesis
  proof (cases r)
    case Nil
    with Cons show ?thesis
      by (simp add: check_battery_degradation_def battery_part_def append_if_def)
  next
    case (Cons e rest)
    with \<open>battery_history st = oldest # r\<close> show ?thesis
      by (simp add: check_battery_degradation_def battery_part_def append_if_def
          index0_Cons uuid4_def Let_def erase_battery_alert)
  qed
qed

lemma check_speed_erased:
  "map erase_id (append_if [] (fst (check_high_speed t st ids))) = speed_part t st"
  by (simp add: check_high_speed_def speed_part_def append_if_def uuid4_def Let_def
      erase_speed_alert)

lemma append_if_eq: "append_if xs b = xs @ append_if [] b"
  by (simp add: append_if_def split: option.splits)

lemma analyze_erased:
  "\<exists>alerts. analyze_alerts t st ids = Inr alerts \<and>
     map erase_id alerts = tire_part t @ battery_part t st @ speed_part t st"
proof -
  obtain ta ids1 where ta: "check_tire_pressure t ids = (ta, ids1)"
    by (cases "check_tire_pressure t ids") auto
  obtain b ids2 where b: "check_battery_degradation t st ids1 = Inr (b, ids2)"
    and b': "map erase_id (append_if [] b) = battery_part t st"
    using check_battery_erased [of t st ids1] by auto
  obtain s ids3 where s: "check_high_speed t st ids2 = (s, ids3)"
    by (cases "check_high_speed t st ids2") auto
  have ta': "map erase_id ta = tire_part t"
    using check_tire_erased [of t ids] ta by simp
  have s': "map erase_id (append_if [] s) = speed_part t st"
    using check_speed_erased [of t st ids2] s by simp
  have "analyze_alerts t st ids = Inr (ta @ append_if [] b @ append_if [] s)"
    using append_if_eq [of "append_if ta b" s] append_if_eq [of ta b]
    by (simp add: analyze_alerts_def analyze_def ta b s Let_def)
  then show ?thesis
    by (simp add: ta' b' s')
qed

lemma signal_erase [simp]: "signal (erase_id a) = signal a"
  by (simp add: erase_id_def)

lemma alert_type_erase [simp]: "alert_type (erase_id a) = alert_type a"
  by (simp add: erase_id_def)


lemma filter_type_erased:
  "map erase_id (filter (\<lambda>a. alert_type a = ty) xs) =
     filter (\<lambda>a. alert_type a = ty) (map erase_id xs)"
  by (simp add: filter_map comp_def)


lemma signal_tire_alert [simp]: "signal (tire_alert t s l p u) = s"
  by (simp add: tire_alert_def)

lemma type_tire_part: "list_all (\<lambda>a. alert_type a = ''tire_pressure_low'') (tire_part t)"
  by (simp add: tire_part_def list_all_iff tire_alert_def split_def)

lemma type_battery_part: "list_all (\<lambda>a. alert_type a = ''battery_degradation'') (battery_part t st)"
  by (simp add: battery_part_def battery_alert_def split: list.splits)

lemma type_speed_part: "list_all (\<lambda>a. alert_type a = ''high_speed_stress'') (speed_part t st)"
  by (simp add: speed_part_def speed_alert_def)

lemma filter_other_type:
  "list_all (\<lambda>a. alert_type a = ty') xs \<Longrightarrow> ty \<noteq> ty' \<Longrightarrow>
   filter (\<lambda>a. alert_type a = ty) xs = []"
  by (induction xs) auto

lemma filter_same_type:
  "list_all (\<lambda>a. alert_type a = ty) xs \<Longrightarrow> filter (\<lambda>a. alert_type a = ty) xs = xs"
  by (induction xs) auto

lemma battery_of_analyze:
  "\<exists>alerts. analyze_alerts t st ids = Inr alerts \<and>
     map erase_id (filter (\<lambda>a. alert_type a = ''battery_degradation'') alerts) = battery_part t st"
proof -
  obtain alerts where a: "analyze_alerts t st ids = Inr alerts"
    and e: "map erase_id alerts = tire_part t @ battery_part t st @ speed_part t st"
    using analyze_erased by blast
  have "filter (\<lambda>a. alert_type a = ''battery_degradation'') (tire_part t) = []"
    by (rule filter_other_type [OF type_tire_part]) simp
  moreover have "filter (\<lambda>a. alert_type a = ''battery_degradation'') (speed_part t st) = []"
    by (rule filter_other_type [OF type_speed_part]) simp
  ultimately have "map erase_id (filter (\<lambda>a. alert_type a = ''battery_degradation'') alerts) =
      battery_part t st"
    by (simp only: filter_type_erased e filter_append filter_same_type [OF type_battery_part]
        append_Nil append_Nil2)
  with a show ?thesis by blast
qed

lemma speed_of_analyze:
  "\<exists>alerts. analyze_alerts t st ids = Inr alerts \<and>
     map erase_id (filter (\<lambda>a. alert_type a = ''high_speed_stress'') alerts) = speed_part t st"
proof -
  obtain alerts where a: "analyze_alerts t st ids = Inr alerts"
    and e: "map erase_id alerts = tire_part t @ battery_part t st @ speed_part t st"
    using analyze_erased by blast
  have "filter (\<lambda>a. alert_type a = ''high_speed_stress'') (tire_part t) = []"
    by (rule filter_other_type [OF type_tire_part]) simp
  moreover have "filter (\<lambda>a. alert_type a = ''high_speed_stress'') (battery_part t st) = []"
    by (rule filter_other_type [OF type_battery_part]) simp
  ultimately have "map erase_id (filter (\<lambda>a. alert_type a = ''high_speed_stress'') alerts) =
      speed_part t st"
    by (simp only: filter_type_erased e filter_append filter_same_type [OF type_speed_part]
        append_Nil append_Nil2)
  with a show ?thesis by blast
qed

lemma last_n_all:
  assumes "n \<le> length xs"
  shows "list_all P (last_n n xs) \<longleftrightarrow> (\<forall>i<n. P (xs ! (length xs - n + i)))"
  using assms by (simp add: last_n_def list_all_length)



text \<open>
  Claim C2. For every snapshot and store, \<open>analyze\<close> returns without error, and its
  result holds exactly one battery_degradation alert if the battery-SoC history has at
  least two entries and the SoC of its oldest entry exceeds the SoC of the snapshot by
  strictly more than 5; otherwise it holds no battery alert. The alert is CRITICAL, reports
  the drop and both values, and carries the threshold text "> 5% drop in monitoring
  window". So a history of fewer than two entries gives no battery alert whatever the SoC
  of the snapshot, and so does a drop of 5 or less.
\<close>

theorem battery_rule:
  "\<exists>alerts. analyze_alerts t st ids = Inr alerts \<and>
     map erase_id (filter (\<lambda>a. alert_type a = ''battery_degradation'') alerts) =
       (if 2 \<le> length (battery_history st) \<and>
           5 < entry_value (battery_history st ! 0) - soc (battery t)
        then [\<lparr>alert_id = '''',
               alert_type = ''battery_degradation'',
               severity = CRITICAL,
               message = [Txt ''Battery Degradation Alert: SoC dropped '',
                          Fixed1 (entry_value (battery_history st ! 0) - soc (battery t)),
                          Txt ''% (from '', Fixed1 (entry_value (battery_history st ! 0)),
                          Txt ''% to '', Fixed1 (soc (battery t)), Txt ''%)''],
               signal = ''battery_soc'',
               alert_value = soc (battery t),
               threshold = ''> 5% drop in monitoring window'',
               alert_timestamp = timestamp t\<rparr>]
        else [])"
proof -
  have "battery_part t st =
      (if 2 \<le> length (battery_history st) \<and>
           5 < entry_value (battery_history st ! 0) - soc (battery t)
        then [battery_alert t (entry_value (battery_history st ! 0) - soc (battery t))
                (entry_value (battery_history st ! 0)) (soc (battery t)) '''']
        else [])"
  proof (cases "battery_history st")
    case Nil
    then show ?thesis by (simp add: battery_part_def)
  next
    case (Cons oldest r)
    then show ?thesis
      by (cases r) (simp_all add: battery_part_def)
  qed
  then have p: "battery_part t st =
      (if 2 \<le> length (battery_history st) \<and>
           5 < entry_value (battery_history st ! 0) - soc (battery t)
        then [\<lparr>alert_id = '''',
               alert_type = ''battery_degradation'',
               severity = CRITICAL,
               message = [Txt ''Battery Degradation Alert: SoC dropped '',
                          Fixed1 (entry_value (battery_history st ! 0) - soc (battery t)),
                          Txt ''% (from '', Fixed1 (entry_value (battery_history st ! 0)),
                          Txt ''% to '', Fixed1 (soc (battery t)), Txt ''%)''],
               signal = ''battery_soc'',
               alert_value = soc (battery t),
               threshold = ''> 5% drop in monitoring window'',
               alert_timestamp = timestamp t\<rparr>]
        else [])"
    by (simp only: battery_alert_def)
  show ?thesis
    using battery_of_analyze [of t st ids] unfolding p .
qed

theorem battery_rule_witness:
  "2 \<le> length (battery_history demo_store) \<and>
   entry_value (battery_history demo_store ! 0) - soc (battery demo_telemetry) = 10 \<and>
   (\<exists>alerts. analyze_alerts demo_telemetry demo_store ids_first = Inr alerts \<and>
      map erase_id (filter (\<lambda>a. alert_type a = ''battery_degradation'') alerts) =
        [\<lparr>alert_id = '''',
          alert_type = ''battery_degradation'',
          severity = CRITICAL,
          message = [Txt ''Battery Degradation Alert: SoC dropped '', Fixed1 10,
                     Txt ''% (from '', Fixed1 80, Txt ''% to '', Fixed1 70, Txt ''%)''],
          signal = ''battery_soc'',
          alert_value = 70,
          threshold = ''> 5% drop in monitoring window'',
          alert_timestamp = ''2024-01-01T00:00:15''\<rparr>]) \<and>
   length (battery_history young_store) = 1 \<and>
   (\<exists>alerts. analyze_alerts demo_telemetry young_store ids_first = Inr alerts \<and>
      map erase_id (filter (\<lambda>a. alert_type a = ''battery_degradation'') alerts) = []) \<and>
   2 \<le> length (battery_history stable_store) \<and>
   entry_value (battery_history stable_store ! 0) - soc (battery stable_telemetry) = 1 \<and>
   (\<exists>alerts. analyze_alerts stable_telemetry stable_store ids_first = Inr alerts \<and>
      map erase_id (filter (\<lambda>a. alert_type a = ''battery_degradation'') alerts) = []) \<and>
   entry_value (battery_history demo_store ! 0) - soc (battery edge_telemetry) = 5 \<and>
   (\<exists>alerts. analyze_alerts edge_telemetry demo_store ids_first = Inr alerts \<and>
      map erase_id (filter (\<lambda>a. alert_type a = ''battery_degradation'') alerts) = [])"
proof -
  have d: "2 \<le> length (battery_history demo_store)"
    "entry_value (battery_history demo_store ! 0) - soc (battery demo_telemetry) = 10"
    "entry_value (battery_history demo_store ! 0) - soc (battery edge_telemetry) = 5"
    by (simp_all add: demo_store_def demo_telemetry_def edge_telemetry_def)
  have y: "length (battery_history young_store) = 1"
    by (simp add: young_store_def)
  have s: "2 \<le> length (battery_history stable_store)"
    "entry_value (battery_history stable_store ! 0) - soc (battery stable_telemetry) = 1"
    by (simp_all add: stable_store_def stable_telemetry_def demo_telemetry_def)
  have v: "entry_value (battery_history demo_store ! 0) = 80"
    "soc (battery demo_telemetry) = 70" "timestamp demo_telemetry = ''2024-01-01T00:00:15''"
    by (simp_all add: demo_store_def demo_telemetry_def)
  from d(1,2) v battery_rule [of demo_telemetry demo_store ids_first]
  have 1: "\<exists>alerts. analyze_alerts demo_telemetry demo_store ids_first = Inr alerts \<and>
      map erase_id (filter (\<lambda>a. alert_type a = ''battery_degradation'') alerts) =
        [\<lparr>alert_id = '''',
          alert_type = ''battery_degradation'',
          severity = CRITICAL,
          message = [Txt ''Battery Degradation Alert: SoC dropped '', Fixed1 10,
                     Txt ''% (from '', Fixed1 80, Txt ''% to '', Fixed1 70, Txt ''%)''],
          signal = ''battery_soc'',
          alert_value = 70,
          threshold = ''> 5% drop in monitoring window'',
          alert_timestamp = ''2024-01-01T00:00:15''\<rparr>]"
    by simp
  from y battery_rule [of demo_telemetry young_store ids_first]
  have 2: "\<exists>alerts. analyze_alerts demo_telemetry young_store ids_first = Inr alerts \<and>
      map erase_id (filter (\<lambda>a. alert_type a = ''battery_degradation'') alerts) = []"
    by simp
  from s battery_rule [of stable_telemetry stable_store ids_first]
  have 3: "\<exists>alerts. analyze_alerts stable_telemetry stable_store ids_first = Inr alerts \<and>
      map erase_id (filter (\<lambda>a. alert_type a = ''battery_degradation'') alerts) = []"
    by simp
  from d(1,3) battery_rule [of edge_telemetry demo_store ids_first]
  have 4: "\<exists>alerts. analyze_alerts edge_telemetry demo_store ids_first = Inr alerts \<and>
      map erase_id (filter (\<lambda>a. alert_type a = ''battery_degradation'') alerts) = []"
    by simp
  from d y s 1 2 3 4 show ?thesis by blast
qed

text \<open>
  Claim C3. For every snapshot and store, \<open>analyze\<close> returns without error, and its
  result holds exactly one high_speed_stress alert (WARNING, reporting the speed of the
  snapshot) if the speed history has at least 10 entries and each of its last 10 entries
  is strictly above 100; otherwise it holds no such alert. So one entry at or below 100
  among the last 10, or a history of fewer than 10 entries, gives no speed alert.
\<close>

theorem speed_rule:
  "\<exists>alerts. analyze_alerts t st ids = Inr alerts \<and>
     map erase_id (filter (\<lambda>a. alert_type a = ''high_speed_stress'') alerts) =
       (if 10 \<le> length (speed_history st) \<and>
           (\<forall>i<10. 100 < entry_value (speed_history st ! (length (speed_history st) - 10 + i)))
        then [\<lparr>alert_id = '''',
               alert_type = ''high_speed_stress'',
               severity = WARNING,
               message = [Txt ''High Speed Stress Warning: Vehicle sustained speed above 100 km/h (current: '',
                          Fixed1 (speed t), Txt '' km/h)''],
               signal = ''speed'',
               alert_value = speed t,
               threshold = ''> 100 km/h sustained for 10+ seconds'',
               alert_timestamp = timestamp t\<rparr>]
        else [])"
proof -
  have "speed_part t st =
      (if 10 \<le> length (speed_history st) \<and>
           (\<forall>i<10. 100 < entry_value (speed_history st ! (length (speed_history st) - 10 + i)))
        then [speed_alert t ''''] else [])"
    using last_n_all [of 10 "speed_history st" "\<lambda>h. 100 < entry_value h"]
    by (auto simp: speed_part_def)
  then have p: "speed_part t st =
      (if 10 \<le> length (speed_history st) \<and>
           (\<forall>i<10. 100 < entry_value (speed_history st ! (length (speed_history st) - 10 + i)))
        then [\<lparr>alert_id = '''',
               alert_type = ''high_speed_stress'',
               severity = WARNING,
               message = [Txt ''High Speed Stress Warning: Vehicle sustained speed above 100 km/h (current: '',
                          Fixed1 (speed t), Txt '' km/h)''],
               signal = ''speed'',
               alert_value = speed t,
               threshold = ''> 100 km/h sustained for 10+ seconds'',
               alert_timestamp = timestamp t\<rparr>]
        else [])"
    by (simp only: speed_alert_def)
  show ?thesis
    using speed_of_analyze [of t st ids] unfolding p .
qed

lemma demo_speed_window:
  "\<forall>i<10. 100 < entry_value (speed_history demo_store ! (length (speed_history demo_store) - 10 + i))"
proof -
  have "list_all (\<lambda>h. 100 < entry_value h) (last_n 10 (speed_history demo_store))"
    by (simp add: demo_store_def last_n_def fast_def)
  moreover have "10 \<le> length (speed_history demo_store)"
    by (simp add: demo_store_def)
  ultimately show ?thesis
    using last_n_all [of 10 "speed_history demo_store" "\<lambda>h. 100 < entry_value h"] by blast
qed

theorem speed_rule_witness:
  "10 \<le> length (speed_history demo_store) \<and>
   list_all (\<lambda>h. 100 < entry_value h) (last_n 10 (speed_history demo_store)) \<and>
   (\<exists>alerts. analyze_alerts demo_telemetry demo_store ids_first = Inr alerts \<and>
     map erase_id (filter (\<lambda>a. alert_type a = ''high_speed_stress'') alerts) =
       [\<lparr>alert_id = '''',
               alert_type = ''high_speed_stress'',
               severity = WARNING,
               message = [Txt ''High Speed Stress Warning: Vehicle sustained speed above 100 km/h (current: '',
                          Fixed1 120, Txt '' km/h)''],
               signal = ''speed'',
               alert_value = 120,
               threshold = ''> 100 km/h sustained for 10+ seconds'',
               alert_timestamp = ''2024-01-01T00:00:15''\<rparr>]) \<and>
   length (speed_history young_store) = 9 \<and>
   (\<exists>alerts. analyze_alerts demo_telemetry young_store ids_first = Inr alerts \<and>
     map erase_id (filter (\<lambda>a. alert_type a = ''high_speed_stress'') alerts) = [])"
proof -
  have l: "10 \<le> length (speed_history demo_store)"
    by (simp add: demo_store_def)
  have w: "list_all (\<lambda>h. 100 < entry_value h) (last_n 10 (speed_history demo_store))"
    by (simp add: demo_store_def last_n_def fast_def)
  have y: "length (speed_history young_store) = 9"
    by (simp add: young_store_def)
  show ?thesis
    using l w y demo_speed_window
      speed_rule [of demo_telemetry demo_store ids_first]
      speed_rule [of demo_telemetry young_store ids_first]
    by (simp add: demo_telemetry_def)
qed


lemma signals_of_erased: "map signal (map erase_id xs) = map signal xs"
  by simp




text \<open>
  Claim C8, as amended. \<open>analyze\<close> keeps no state of its own; two calls with the same
  snapshot and the same store contents both return without error, and their alert lists
  agree in length, order and every field except the identifier, which each call draws
  afresh from \<open>uuid4\<close>.
\<close>

theorem analyze_equal_up_to_ids:
  "\<exists>alerts1 alerts2.
     analyze_alerts t st ids1 = Inr alerts1 \<and> analyze_alerts t st ids2 = Inr alerts2 \<and>
     map erase_id alerts1 = map erase_id alerts2"
proof -
  obtain a1 where 1: "analyze_alerts t st ids1 = Inr a1"
    and e1: "map erase_id a1 = tire_part t @ battery_part t st @ speed_part t st"
    using analyze_erased by blast
  obtain a2 where 2: "analyze_alerts t st ids2 = Inr a2"
    and e2: "map erase_id a2 = tire_part t @ battery_part t st @ speed_part t st"
    using analyze_erased by blast
  from 1 2 e1 e2 show ?thesis by simp
qed

text \<open>
  Claim C8 as stated fails: on the sample snapshot and store, two calls whose \<open>uuid4\<close>
  draws differ return different alert lists.
\<close>

theorem analyze_ids_differ:
  "analyze_alerts demo_telemetry demo_store ids_first \<noteq>
   analyze_alerts demo_telemetry demo_store ids_second"
  by (simp add: analyze_alerts_def analyze_def check_tire_pressure_def tire_map_def
      demo_telemetry_def demo_store_def uuid4_def check_battery_degradation_def index0_def
      check_high_speed_def last_n_def fast_def append_if_def ids_first_def ids_second_def
      tire_alert_def battery_alert_def speed_alert_def Let_def)

lemma map_eq_appendD:
  "map f xs = ys @ zs \<Longrightarrow> \<exists>us vs. xs = us @ vs \<and> map f us = ys \<and> map f vs = zs"
  by (auto simp: map_eq_append_conv)

text \<open>
  Claim C10. For every snapshot and store, \<open>analyze\<close> returns at most 6 alerts: first
  the tire alerts, at most 4 and with pairwise different signals (one per position), then
  at most one battery_degradation alert, then at most one high_speed_stress alert.
\<close>

theorem analyze_at_most_six:
  "\<exists>alerts ta ba sa.
     analyze_alerts t st ids = Inr alerts \<and> alerts = ta @ ba @ sa \<and> length alerts \<le> 6 \<and>
     length ta \<le> 4 \<and> list_all (\<lambda>a. alert_type a = ''tire_pressure_low'') ta \<and>
     distinct (map signal ta) \<and>
     length ba \<le> 1 \<and> list_all (\<lambda>a. alert_type a = ''battery_degradation'') ba \<and>
     length sa \<le> 1 \<and> list_all (\<lambda>a. alert_type a = ''high_speed_stress'') sa"
proof -
  obtain alerts where a: "analyze_alerts t st ids = Inr alerts"
    and e: "map erase_id alerts = tire_part t @ battery_part t st @ speed_part t st"
    using analyze_erased by blast
  obtain ta r where r: "alerts = ta @ r" "map erase_id ta = tire_part t"
    "map erase_id r = battery_part t st @ speed_part t st"
    using map_eq_appendD [OF e] by blast
  obtain ba sa where s: "r = ba @ sa" "map erase_id ba = battery_part t st"
    "map erase_id sa = speed_part t st"
    using map_eq_appendD [OF r(3)] by blast
  have lt: "length ta \<le> 4"
    using arg_cong [OF r(2), of length]
    by (simp add: tire_part_def tire_map_def)
  have lb: "length ba \<le> 1"
    using arg_cong [OF s(2), of length]
    by (simp add: battery_part_def split: list.splits)
  have ls: "length sa \<le> 1"
    using arg_cong [OF s(3), of length]
    by (simp add: speed_part_def)
  have tt: "list_all (\<lambda>a. alert_type a = ''tire_pressure_low'') ta"
    using type_tire_part [of t] unfolding r(2) [symmetric]
    by (simp add: list_all_iff)
  have tb: "list_all (\<lambda>a. alert_type a = ''battery_degradation'') ba"
    using type_battery_part [of t st] unfolding s(2) [symmetric]
    by (simp add: list_all_iff)
  have ts: "list_all (\<lambda>a. alert_type a = ''high_speed_stress'') sa"
    using type_speed_part [of t st] unfolding s(3) [symmetric]
    by (simp add: list_all_iff)
  have "map signal ta = map signal (tire_part t)"
    using signals_of_erased [of ta] by (simp only: r(2))
  also have "\<dots> = map fst (filter (\<lambda>(s, l, p). p < 25) (tire_map t))"
    by (simp add: tire_part_def split_def comp_def)
  finally have sg: "map signal ta = map fst (filter (\<lambda>(s, l, p). p < 25) (tire_map t))" .
  have "distinct (map fst (tire_map t))"
    by (simp add: tire_map_def)
  then have dt: "distinct (map signal ta)"
    unfolding sg by (rule distinct_map_filter)
  have "length alerts \<le> 6"
    using lt lb ls by (simp add: r(1) s(1))
  with a r(1) s(1) lt lb ls tt tb ts dt show ?thesis
    by blast
qed

section \<open>Properties of the simulator and of the alerts endpoint\<close>


lemma round_half_even_ge: "of_int k \<le> y \<Longrightarrow> k \<le> round_half_even y"
proof -
  assume "of_int k \<le> y"
  then have "k \<le> \<lfloor>y\<rfloor>" by (simp add: le_floor_iff)
  then show ?thesis
    by (simp add: round_half_even_def Let_def)
qed

lemma round_half_even_le: "y \<le> of_int k \<Longrightarrow> round_half_even y \<le> k"
proof (cases "y = of_int \<lfloor>y\<rfloor>")
  case True
  assume "y \<le> of_int k"
  then have "\<lfloor>y\<rfloor> \<le> k" by (simp add: floor_le_iff)
  moreover from True have "y - of_int \<lfloor>y\<rfloor> = 0" by simp
  ultimately show ?thesis
    by (simp add: round_half_even_def Let_def)
next
  case False
  assume le: "y \<le> of_int k"
  have "of_int \<lfloor>y\<rfloor> < y"
    using False of_int_floor_le [of y] by linarith
  with le have "(of_int \<lfloor>y\<rfloor> :: real) < of_int k" by linarith
  then have "\<lfloor>y\<rfloor> + 1 \<le> k" by simp
  then show ?thesis
    by (simp add: round_half_even_def Let_def)
qed

lemma round1_ge: "of_int k / 10 \<le> x \<Longrightarrow> of_int k / 10 \<le> round1 x"
proof -
  assume "of_int k / 10 \<le> x"
  then have "of_int k \<le> x * 10" by simp
  then have "k \<le> round_half_even (x * 10)" by (rule round_half_even_ge)
  then show ?thesis by (simp add: round1_def divide_le_cancel)
qed

lemma round1_le: "x \<le> of_int k / 10 \<Longrightarrow> round1 x \<le> of_int k / 10"
proof -
  assume "x \<le> of_int k / 10"
  then have "x * 10 \<le> of_int k" by simp
  then have "round_half_even (x * 10) \<le> k" by (rule round_half_even_le)
  then show ?thesis by (simp add: round1_def divide_le_cancel)
qed

lemma round1_between:
  assumes "of_int lo / 10 \<le> x" "x \<le> of_int hi / 10"
  shows "of_int lo / 10 \<le> round1 x \<and> round1 x \<le> of_int hi / 10"
  using round1_ge [OF assms(1)] round1_le [OF assms(2)] by (rule conjI)

lemma uniform_bounds:
  assumes "unit_draw r" "a \<le> b"
  shows "a \<le> uniform a b r \<and> uniform a b r \<le> b"
proof -
  from assms have r: "0 \<le> r" "r \<le> 1" and ab: "0 \<le> b - a"
    by (simp_all add: unit_draw_def)
  have "0 \<le> (b - a) * r" using ab r(1) by simp
  moreover have "(b - a) * r \<le> (b - a) * 1"
    using r(2) ab by (rule mult_left_mono)
  ultimately show ?thesis by (simp add: uniform_def)
qed

lemma plateau_speed:
  assumes "plateau (sim_tick_count s)" "unit_draw (plateau_r d)"
  shows "105 \<le> sim_speed (update_speed d s) \<and> sim_speed (update_speed d s) \<le> 130"
proof -
  have "sim_speed (update_speed d s) = uniform 105 130 (plateau_r d)"
    using assms(1) by (simp add: update_speed_def Let_def)
  with uniform_bounds [OF assms(2), of 105 130] show ?thesis by simp
qed

lemma walk_speed:
  assumes "\<not> plateau (sim_tick_count s)"
  shows "sim_speed (update_speed d s) =
     max 0 (min 140 (sim_speed s + uniform 1 5 (delta_r d) *
       of_int (if flip_r d < 0.05 then sim_speed_direction s * (- 1) else sim_speed_direction s)))"
  using assms by (simp add: update_speed_def Let_def)

lemma speed_clamped:
  assumes "unit_draw (plateau_r d)"
  shows "0 \<le> sim_speed (update_speed d s) \<and> sim_speed (update_speed d s) \<le> 140"
proof (cases "plateau (sim_tick_count s)")
  case True
  from plateau_speed [OF True assms] show ?thesis by simp
next
  case False
  show ?thesis unfolding walk_speed [OF False] by simp
qed

lemma soc_clamped:
  "5 \<le> sim_battery_soc (update_battery d s) \<and> sim_battery_soc (update_battery d s) \<le> 100"
  by (simp add: update_battery_def Let_def)

lemma tires_clamped:
  "15 \<le> sim_tire_fl (update_tires d s) \<and> sim_tire_fl (update_tires d s) \<le> 40 \<and>
   15 \<le> sim_tire_fr (update_tires d s) \<and> sim_tire_fr (update_tires d s) \<le> 40 \<and>
   15 \<le> sim_tire_rl (update_tires d s) \<and> sim_tire_rl (update_tires d s) \<le> 40 \<and>
   15 \<le> sim_tire_rr (update_tires d s) \<and> sim_tire_rr (update_tires d s) \<le> 40"
  by (simp add: update_tires_def clamp_tires_def)

lemma update_battery_frame:
  "sim_speed (update_battery d s) = sim_speed s"
  "sim_tick_count (update_battery d s) = sim_tick_count s"
  "sim_running (update_battery d s) = sim_running s"
  by (simp_all add: update_battery_def Let_def)

lemma fluctuate_tires_frame:
  "sim_speed (fluctuate_tires d s) = sim_speed s"
  "sim_battery_soc (fluctuate_tires d s) = sim_battery_soc s"
  "sim_tick_count (fluctuate_tires d s) = sim_tick_count s"
  "sim_running (fluctuate_tires d s) = sim_running s"
  by (simp_all add: fluctuate_tires_def)

lemma tire_drop_event_frame:
  "sim_speed (tire_drop_event d s) = sim_speed s"
  "sim_battery_soc (tire_drop_event d s) = sim_battery_soc s"
  "sim_tick_count (tire_drop_event d s) = sim_tick_count s"
  "sim_running (tire_drop_event d s) = sim_running s"
  by (simp_all add: tire_drop_event_def Let_def)

lemma clamp_tires_frame:
  "sim_speed (clamp_tires s) = sim_speed s"
  "sim_battery_soc (clamp_tires s) = sim_battery_soc s"
  "sim_tick_count (clamp_tires s) = sim_tick_count s"
  "sim_running (clamp_tires s) = sim_running s"
  by (simp_all add: clamp_tires_def)

lemma update_tires_frame:
  "sim_speed (update_tires d s) = sim_speed s"
  "sim_battery_soc (update_tires d s) = sim_battery_soc s"
  "sim_tick_count (update_tires d s) = sim_tick_count s"
  "sim_running (update_tires d s) = sim_running s"
  by (simp_all only: update_tires_def clamp_tires_frame tire_drop_event_frame
      fluctuate_tires_frame)

lemma update_odometer_frame:
  "sim_speed (update_odometer s) = sim_speed s"
  "sim_battery_soc (update_odometer s) = sim_battery_soc s"
  "sim_tire_fl (update_odometer s) = sim_tire_fl s"
  "sim_tire_fr (update_odometer s) = sim_tire_fr s"
  "sim_tire_rl (update_odometer s) = sim_tire_rl s"
  "sim_tire_rr (update_odometer s) = sim_tire_rr s"
  "sim_tick_count (update_odometer s) = sim_tick_count s"
  "sim_running (update_odometer s) = sim_running s"
  by (simp_all add: update_odometer_def)

lemma update_speed_frame:
  "sim_tick_count (update_speed d s) = sim_tick_count s"
  "sim_running (update_speed d s) = sim_running s"
  by (simp_all add: update_speed_def Let_def)

lemmas frames = update_battery_frame update_tires_frame update_odometer_frame update_speed_frame

lemma snapshot_speed:
  "speed (fst (generate_telemetry d s)) = round1 (sim_speed (update_speed d s))"
  by (simp add: generate_telemetry_def Let_def snapshot_def frames)

lemma snapshot_soc:
  "soc (battery (fst (generate_telemetry d s))) =
     round1 (sim_battery_soc (update_battery d (update_speed d s)))"
  by (simp add: generate_telemetry_def Let_def snapshot_def frames)

lemma snapshot_tires:
  "front_left (tires (fst (generate_telemetry d s))) =
     round1 (sim_tire_fl (update_tires d (update_battery d (update_speed d s))))"
  "front_right (tires (fst (generate_telemetry d s))) =
     round1 (sim_tire_fr (update_tires d (update_battery d (update_speed d s))))"
  "rear_left (tires (fst (generate_telemetry d s))) =
     round1 (sim_tire_rl (update_tires d (update_battery d (update_speed d s))))"
  "rear_right (tires (fst (generate_telemetry d s))) =
     round1 (sim_tire_rr (update_tires d (update_battery d (update_speed d s))))"
  by (simp_all add: generate_telemetry_def Let_def snapshot_def frames)

lemma round1_clamp:
  assumes "real_of_int lo \<le> x \<and> x \<le> real_of_int hi"
  shows "real_of_int lo \<le> round1 x \<and> round1 x \<le> real_of_int hi"
  using round1_between [of "lo * 10" x "hi * 10"] assms by simp

lemma generate_within_clamps:
  assumes "unit_draw (plateau_r d)"
  shows "within_clamps (fst (generate_telemetry d s))"
proof -
  have sp: "0 \<le> speed (fst (generate_telemetry d s)) \<and> speed (fst (generate_telemetry d s)) \<le> 140"
    unfolding snapshot_speed
    using round1_clamp [of 0 _ 140] speed_clamped [OF assms, of s] by simp
  have so: "5 \<le> soc (battery (fst (generate_telemetry d s))) \<and>
      soc (battery (fst (generate_telemetry d s))) \<le> 100"
    unfolding snapshot_soc
    using round1_clamp [of 5 _ 100] soc_clamped [of d "update_speed d s"] by simp
  note t = tires_clamped [of d "update_battery d (update_speed d s)"]
  have fl: "15 \<le> front_left (tires (fst (generate_telemetry d s))) \<and>
      front_left (tires (fst (generate_telemetry d s))) \<le> 40"
    unfolding snapshot_tires using round1_clamp [of 15 _ 40] t by simp
  have fr: "15 \<le> front_right (tires (fst (generate_telemetry d s))) \<and>
      front_right (tires (fst (generate_telemetry d s))) \<le> 40"
    unfolding snapshot_tires using round1_clamp [of 15 _ 40] t by simp
  have rl: "15 \<le> rear_left (tires (fst (generate_telemetry d s))) \<and>
      rear_left (tires (fst (generate_telemetry d s))) \<le> 40"
    unfolding snapshot_tires using round1_clamp [of 15 _ 40] t by simp
  have rr: "15 \<le> rear_right (tires (fst (generate_telemetry d s))) \<and>
      rear_right (tires (fst (generate_telemetry d s))) \<le> 40"
    unfolding snapshot_tires using round1_clamp [of 15 _ 40] t by simp
  from sp so fl fr rl rr show ?thesis
    unfolding within_clamps_def by blast
qed

lemma tick_snapshot: "fst (tick d s) = fst (generate_telemetry d (s\<lparr>sim_tick_count := sim_tick_count s + 1\<rparr>))"
  by (simp add: tick_def Let_def split_def)

lemma generate_frame:
  "sim_tick_count (snd (generate_telemetry d s)) = sim_tick_count s"
  "sim_running (snd (generate_telemetry d s)) = sim_running s"
  by (simp_all add: generate_telemetry_def Let_def frames)

lemma tick_frame:
  "sim_tick_count (snd (tick d s)) = sim_tick_count s + 1"
  "sim_running (snd (tick d s)) = sim_running s"
  by (simp_all add: tick_def Let_def split_def generate_frame)

lemma run_ticks_Cons:
  "sim_running s \<Longrightarrow>
   fst (run_ticks (d # ds) s) = fst (tick d s) # fst (run_ticks ds (snd (tick d s)))"
  by (simp add: split_def)

lemma run_ticks_stopped: "\<not> sim_running s \<Longrightarrow> fst (run_ticks ds s) = []"
  by (cases ds) simp_all

lemma run_ticks_length:
  "sim_running s \<Longrightarrow> length (fst (run_ticks ds s)) = length ds"
proof (induction ds arbitrary: s)
  case Nil
  show ?case by simp
next
  case (Cons d ds)
  from Cons.prems have "sim_running (snd (tick d s))" by (simp add: tick_frame)
  from Cons.IH [OF this] Cons.prems show ?case
    by (simp only: run_ticks_Cons list.size)
qed

lemma run_ticks_within_clamps:
  "list_all (\<lambda>d. unit_draw (plateau_r d)) ds \<Longrightarrow> list_all within_clamps (fst (run_ticks ds s))"
proof (induction ds arbitrary: s)
  case Nil
  show ?case by simp
next
  case (Cons d ds)
  show ?case
  proof (cases "sim_running s")
    case False
    then show ?thesis by (simp add: run_ticks_stopped)
  next
    case True
    from Cons.prems have d: "unit_draw (plateau_r d)"
      and ds: "list_all (\<lambda>d. unit_draw (plateau_r d)) ds" by simp_all
    have "within_clamps (fst (tick d s))"
      unfolding tick_snapshot by (rule generate_within_clamps [OF d])
    with Cons.IH [OF ds] show ?thesis
      by (simp add: run_ticks_Cons [OF True] del: run_ticks.simps)
  qed
qed

lemma plateau_congruence:
  "plateau tc \<longleftrightarrow> 20 < tc \<and> 0 \<le> tc mod 50 \<and> tc mod 50 \<le> 14"
  unfolding plateau_def by auto

lemma block_start:
  assumes "plateau tc" "\<not> plateau (tc - 1)"
  shows "tc mod 50 = 0"
proof -
  from assms(1) have a: "tc mod 50 < 15" "20 < tc" by (simp_all add: plateau_def)
  with assms(2) have b: "\<not> (tc - 1) mod 50 < 15"
    by (cases "tc = 21") (auto simp: plateau_def)
  show ?thesis
  proof (rule ccontr)
    assume n: "tc mod 50 \<noteq> 0"
    have "0 \<le> tc mod 50" by simp
    with n have pos: "1 \<le> tc mod 50" by linarith
    have "(tc - 1) mod 50 = (tc mod 50 - 1) mod 50"
      by (simp add: mod_diff_left_eq)
    also have "\<dots> = tc mod 50 - 1"
      using pos a(1) by (simp add: mod_pos_pos_trivial)
    finally show False using b a(1) by linarith
  qed
qed

lemma plateau_block:
  assumes "plateau tc" "\<not> plateau (tc - 1)"
  shows "(\<forall>k. 0 \<le> k \<and> k < 15 \<longrightarrow> plateau (tc + k)) \<and> \<not> plateau (tc + 15)"
proof -
  have z: "tc mod 50 = 0" using assms by (rule block_start)
  from assms(1) have big: "20 < tc" by (simp add: plateau_def)
  have m: "(tc + k) mod 50 = k mod 50" for k
  proof -
    have "(tc + k) mod 50 = (tc mod 50 + k) mod 50"
      by (simp only: mod_add_left_eq)
    then show ?thesis by (simp add: z)
  qed
  show ?thesis
  proof (intro conjI allI impI)
    fix k :: int
    assume k: "0 \<le> k \<and> k < 15"
    then have "k mod 50 = k" by (simp add: mod_pos_pos_trivial)
    with k big show "plateau (tc + k)" by (simp add: plateau_def m)
  next
    show "\<not> plateau (tc + 15)" by (simp add: plateau_def m)
  qed
qed

lemma tick_plateau_speed:
  assumes "plateau (sim_tick_count s + 1)" "unit_draw (plateau_r d)"
  shows "105 \<le> speed (fst (tick d s)) \<and> speed (fst (tick d s)) \<le> 130"
proof -
  have "plateau (sim_tick_count (s\<lparr>sim_tick_count := sim_tick_count s + 1\<rparr>))"
    using assms(1) by simp
  from plateau_speed [OF this assms(2)]
  show ?thesis
    unfolding tick_snapshot snapshot_speed
    using round1_clamp [of 105 _ 130] by simp
qed

lemma run_ticks_plateau:
  "sim_running s \<Longrightarrow>
   (\<forall>k. 1 \<le> k \<and> k \<le> int (length ds) \<longrightarrow> plateau (sim_tick_count s + k)) \<Longrightarrow>
   list_all (\<lambda>d. unit_draw (plateau_r d)) ds \<Longrightarrow>
   list_all (\<lambda>t. 105 \<le> speed t \<and> speed t \<le> 130) (fst (run_ticks ds s))"
proof (induction ds arbitrary: s)
  case Nil
  show ?case by simp
next
  case (Cons d ds)
  from Cons.prems(3) have d: "unit_draw (plateau_r d)"
    and ds: "list_all (\<lambda>d. unit_draw (plateau_r d)) ds" by simp_all
  have p1: "plateau (sim_tick_count s + 1)"
    using Cons.prems(2) by simp
  have run: "sim_running (snd (tick d s))"
    using Cons.prems(1) by (simp add: tick_frame)
  have rest: "\<forall>k. 1 \<le> k \<and> k \<le> int (length ds) \<longrightarrow>
      plateau (sim_tick_count (snd (tick d s)) + k)"
  proof (intro allI impI)
    fix k :: int
    assume k: "1 \<le> k \<and> k \<le> int (length ds)"
    then have "1 \<le> k + 1 \<and> k + 1 \<le> int (length (d # ds))" by simp
    with Cons.prems(2) have "plateau (sim_tick_count s + (k + 1))" by blast
    then show "plateau (sim_tick_count (snd (tick d s)) + k)"
      by (simp add: tick_frame ac_simps)
  qed
  from Cons.IH [OF run rest ds] tick_plateau_speed [OF p1 d]
  show ?case
    by (simp add: run_ticks_Cons [OF Cons.prems(1)] del: run_ticks.simps)
qed

text \<open>
  Claim C5. Clamp invariant of the simulator. From every simulator state, and for every
  outcome of the random draws of a tick (the contract of \<open>random.random()\<close>, a value in
  \<open>[0, 1)\<close>, is needed for the plateau draw only), the snapshot of the tick has its speed
  within [0, 140], its SoC within [5, 100] and its four tire pressures within [15, 40]. So
  has every snapshot of a run of any number of consecutive ticks, whether or not a fault
  event or the plateau fires; a running simulator produces one snapshot per tick.
\<close>

theorem clamp_invariant:
  "(unit_draw (plateau_r d) \<longrightarrow> within_clamps (fst (generate_telemetry d s))) \<and>
   (list_all (\<lambda>d. unit_draw (plateau_r d)) ds \<longrightarrow>
      list_all within_clamps (fst (run_ticks ds s)) \<and>
      (sim_running s \<longrightarrow> length (fst (run_ticks ds s)) = length ds))"
  using generate_within_clamps [of d s] run_ticks_within_clamps [of ds s]
    run_ticks_length [of s ds]
  by blast

lemma worn_after_fault:
  "soc (battery (fst (generate_telemetry fault_draws worn_sim))) = 5 \<and>
   rear_right (tires (fst (generate_telemetry fault_draws worn_sim))) = 15"
  by (simp add: snapshot_soc snapshot_tires update_tires_def clamp_tires_def
      tire_drop_event_def fluctuate_tires_def update_battery_def update_speed_def Let_def
      worn_sim_def cruising_sim_def running_sim_def idle_sim_def init_simulator_def start_def
      fault_draws_def uniform_def plateau_def round1_def round_half_even_def)

theorem clamp_invariant_witness:
  "unit_draw (plateau_r fault_draws) \<and>
   within_clamps (fst (generate_telemetry fault_draws worn_sim)) \<and>
   soc (battery (fst (generate_telemetry fault_draws worn_sim))) = 5 \<and>
   rear_right (tires (fst (generate_telemetry fault_draws worn_sim))) = 15 \<and>
   list_all (\<lambda>d. unit_draw (plateau_r d)) [fault_draws, calm_draws] \<and>
   sim_running worn_sim \<and>
   list_all within_clamps (fst (run_ticks [fault_draws, calm_draws] worn_sim)) \<and>
   length (fst (run_ticks [fault_draws, calm_draws] worn_sim)) = 2"
proof -
  have u: "unit_draw (plateau_r fault_draws)"
    by (simp add: unit_draw_def fault_draws_def)
  have us: "list_all (\<lambda>d. unit_draw (plateau_r d)) [fault_draws, calm_draws]"
    by (simp add: unit_draw_def fault_draws_def calm_draws_def)
  have r: "sim_running worn_sim"
    by (simp add: worn_sim_def cruising_sim_def running_sim_def start_def idle_sim_def
        init_simulator_def Let_def)
  show ?thesis
    using u us r worn_after_fault
      clamp_invariant [of fault_draws worn_sim "[fault_draws, calm_draws]"]
    by simp
qed

text \<open>
  Claim C6. The plateau is active exactly on the ticks whose count is above 20 and
  congruent to 0..14 modulo 50. On such a tick the speed is forced to the plateau draw, in
  [105, 130], and so is the speed of the snapshot; on every other tick the speed is the
  clamped random walk. A block that begins (active at \<open>tc\<close>, not at \<open>tc - 1\<close>) stays
  active for the 15 ticks \<open>tc .. tc + 14\<close> and ends at \<open>tc + 15\<close>; the ten snapshots
  a running simulator produces from the beginning of a block all have a speed above 100,
  which is what the sustained-speed rule asks of the last ten history entries.
\<close>

theorem plateau_rule:
  "(plateau tc \<longleftrightarrow> 20 < tc \<and> 0 \<le> tc mod 50 \<and> tc mod 50 \<le> 14) \<and>
   (plateau (sim_tick_count s) \<and> unit_draw (plateau_r d) \<longrightarrow>
      sim_speed (update_speed d s) = uniform 105 130 (plateau_r d) \<and>
      105 \<le> sim_speed (update_speed d s) \<and> sim_speed (update_speed d s) \<le> 130 \<and>
      105 \<le> speed (fst (generate_telemetry d s)) \<and>
      speed (fst (generate_telemetry d s)) \<le> 130) \<and>
   (\<not> plateau (sim_tick_count s) \<longrightarrow>
      sim_speed (update_speed d s) =
        max 0 (min 140 (sim_speed s + uniform 1 5 (delta_r d) *
          of_int (if flip_r d < 0.05 then sim_speed_direction s * (- 1)
                  else sim_speed_direction s)))) \<and>
   (plateau tc \<and> \<not> plateau (tc - 1) \<longrightarrow>
      (\<forall>k. 0 \<le> k \<and> k < 15 \<longrightarrow> plateau (tc + k)) \<and> \<not> plateau (tc + 15)) \<and>
   (sim_running s \<and> plateau (sim_tick_count s + 1) \<and> \<not> plateau (sim_tick_count s) \<and>
    length ds = 10 \<and> list_all (\<lambda>d. unit_draw (plateau_r d)) ds \<longrightarrow>
      length (fst (run_ticks ds s)) = 10 \<and>
      list_all (\<lambda>t. 100 < speed t) (fst (run_ticks ds s)))"
proof (intro conjI impI)
  show "plateau tc \<longleftrightarrow> 20 < tc \<and> 0 \<le> tc mod 50 \<and> tc mod 50 \<le> 14"
    by (rule plateau_congruence)
next
  assume a: "plateau (sim_tick_count s) \<and> unit_draw (plateau_r d)"
  then show "sim_speed (update_speed d s) = uniform 105 130 (plateau_r d)"
    by (simp add: update_speed_def Let_def)
  from a plateau_speed [of s d]
  show "105 \<le> sim_speed (update_speed d s)" "sim_speed (update_speed d s) \<le> 130"
    by simp_all
  from a plateau_speed [of s d] round1_clamp [of 105 "sim_speed (update_speed d s)" 130]
  show "105 \<le> speed (fst (generate_telemetry d s))"
    "speed (fst (generate_telemetry d s)) \<le> 130"
    by (simp_all add: snapshot_speed)
next
  assume "\<not> plateau (sim_tick_count s)"
  then show "sim_speed (update_speed d s) =
        max 0 (min 140 (sim_speed s + uniform 1 5 (delta_r d) *
          of_int (if flip_r d < 0.05 then sim_speed_direction s * (- 1)
                  else sim_speed_direction s)))"
    by (rule walk_speed)
next
  assume b: "plateau tc \<and> \<not> plateau (tc - 1)"
  then have "(\<forall>k. 0 \<le> k \<and> k < 15 \<longrightarrow> plateau (tc + k)) \<and> \<not> plateau (tc + 15)"
    using plateau_block [of tc] by blast
  then show "\<forall>k. 0 \<le> k \<and> k < 15 \<longrightarrow> plateau (tc + k)" "\<not> plateau (tc + 15)"
    by blast+
next
  assume c: "sim_running s \<and> plateau (sim_tick_count s + 1) \<and> \<not> plateau (sim_tick_count s) \<and>
    length ds = 10 \<and> list_all (\<lambda>d. unit_draw (plateau_r d)) ds"
  then show "length (fst (run_ticks ds s)) = 10"
    using run_ticks_length [of s ds] by simp
  from c have blk: "\<forall>k. 0 \<le> k \<and> k < 15 \<longrightarrow> plateau (sim_tick_count s + 1 + k)"
    using plateau_block [of "sim_tick_count s + 1"] by simp
  have "\<forall>k. 1 \<le> k \<and> k \<le> int (length ds) \<longrightarrow> plateau (sim_tick_count s + k)"
  proof (intro allI impI)
    fix k :: int
    assume "1 \<le> k \<and> k \<le> int (length ds)"
    with c have "0 \<le> k - 1 \<and> k - 1 < 15" by simp
    with blk have "plateau (sim_tick_count s + 1 + (k - 1))" by blast
    then show "plateau (sim_tick_count s + k)" by simp
  qed
  with c have "list_all (\<lambda>t. 105 \<le> speed t \<and> speed t \<le> 130) (fst (run_ticks ds s))"
    using run_ticks_plateau [of s ds] by blast
  then show "list_all (\<lambda>t. 100 < speed t) (fst (run_ticks ds s))"
    by (rule list.pred_mono_strong) simp
qed

theorem plateau_rule_witness:
  "plateau 50 \<and> \<not> plateau 49 \<and> plateau 64 \<and> \<not> plateau 65 \<and> \<not> plateau 14 \<and>
   unit_draw (plateau_r calm_draws) \<and>
   sim_tick_count (cruising_sim\<lparr>sim_tick_count := 50\<rparr>) = 50 \<and>
   sim_speed (update_speed calm_draws (cruising_sim\<lparr>sim_tick_count := 50\<rparr>)) = 110 \<and>
   speed (fst (generate_telemetry calm_draws (cruising_sim\<lparr>sim_tick_count := 50\<rparr>))) \<le> 130 \<and>
   sim_tick_count cruising_sim = 49 \<and>
   sim_speed (update_speed calm_draws cruising_sim) = 63 \<and>
   sim_running cruising_sim \<and>
   length (replicate 10 calm_draws) = 10 \<and>
   length (fst (run_ticks (replicate 10 calm_draws) cruising_sim)) = 10 \<and>
   list_all (\<lambda>t. 100 < speed t) (fst (run_ticks (replicate 10 calm_draws) cruising_sim))"
proof -
  have p: "plateau 50" "\<not> plateau 49" "\<not> plateau 14"
    by (simp_all add: plateau_def)
  have u: "unit_draw (plateau_r calm_draws)"
    by (simp add: unit_draw_def calm_draws_def)
  have t: "sim_tick_count cruising_sim = 49" "sim_running cruising_sim"
    "sim_speed cruising_sim = 60" "sim_speed_direction cruising_sim = 1"
    by (simp_all add: cruising_sim_def running_sim_def start_def idle_sim_def
        init_simulator_def Let_def)
  have us: "list_all (\<lambda>d. unit_draw (plateau_r d)) (replicate 10 calm_draws)"
    using u by (simp add: list_all_iff)
  have d: "uniform 105 130 (plateau_r calm_draws) = 110"
    "uniform 1 5 (delta_r calm_draws) = 3" "\<not> flip_r calm_draws < 0.05"
    by (simp_all add: uniform_def calm_draws_def)
  note w50 = plateau_rule [of 50 "cruising_sim\<lparr>sim_tick_count := 50\<rparr>" calm_draws
      "replicate 10 calm_draws"]
  note w49 = plateau_rule [of 50 cruising_sim calm_draws "replicate 10 calm_draws"]
  have k: "plateau 64" "\<not> plateau 65"
    by (simp_all add: plateau_def)
  show ?thesis
    using p u t us d k w50 w49 by simp
qed

text \<open>
  Claim C7. \<open>start\<close> on a running simulator changes nothing and returns a status with
  the current running flag, tick count and start time; a second \<open>start\<close> right after a
  first leaves the state, the tick count and the start time as the first call left them.
  \<open>stop\<close> on a stopped simulator changes nothing (so the tick count is unaltered) and
  returns a status that is not running, with the message "Simulator not running".
\<close>

theorem start_stop_idempotent:
  "(sim_running s \<longrightarrow>
      snd (start now2 s) = s \<and>
      status_running (fst (start now2 s)) \<and>
      status_tick_count (fst (start now2 s)) = sim_tick_count s \<and>
      status_start_time (fst (start now2 s)) = status_start_time (store_simulation s)) \<and>
   snd (start now2 (snd (start now1 s))) = snd (start now1 s) \<and>
   status_tick_count (fst (start now2 (snd (start now1 s)))) =
     status_tick_count (fst (start now1 s)) \<and>
   status_start_time (fst (start now2 (snd (start now1 s)))) =
     status_start_time (fst (start now1 s)) \<and>
   (\<not> sim_running s \<longrightarrow>
      snd (stop s) = s \<and>
      \<not> status_running (fst (stop s)) \<and>
      status_message (fst (stop s)) = [Txt ''Simulator not running''] \<and>
      status_tick_count (fst (stop s)) = sim_tick_count s)"
  by (simp add: start_def stop_def Let_def)

theorem start_stop_idempotent_witness:
  "sim_running running_sim \<and>
   snd (start ''2024-01-01T00:05:00'' running_sim) = running_sim \<and>
   status_running (fst (start ''2024-01-01T00:05:00'' running_sim)) \<and>
   status_tick_count (fst (start ''2024-01-01T00:05:00'' running_sim)) = 0 \<and>
   status_start_time (fst (start ''2024-01-01T00:05:00'' running_sim)) =
     Some ''2024-01-01T00:00:00'' \<and>
   \<not> sim_running idle_sim \<and>
   snd (stop idle_sim) = idle_sim \<and>
   \<not> status_running (fst (stop idle_sim)) \<and>
   status_message (fst (stop idle_sim)) = [Txt ''Simulator not running''] \<and>
   status_tick_count (fst (stop idle_sim)) = 0"
proof -
  have r: "sim_running running_sim" "sim_tick_count running_sim = 0"
    "status_start_time (store_simulation running_sim) = Some ''2024-01-01T00:00:00''"
    by (simp_all add: running_sim_def start_def idle_sim_def init_simulator_def Let_def)
  have i: "\<not> sim_running idle_sim" "sim_tick_count idle_sim = 0"
    by (simp_all add: idle_sim_def init_simulator_def)
  show ?thesis
    using r i
      start_stop_idempotent [of running_sim "''2024-01-01T00:05:00''" "''2024-01-01T00:05:00''"]
      start_stop_idempotent [of idle_sim "''2024-01-01T00:05:00''" "''2024-01-01T00:05:00''"]
    by simp
qed

lemma take_min_length: "take (min (length xs) n) (rev xs) = take n (rev xs)"
  by (simp add: min_def)

text \<open>
  Claim C9. Whenever the alerts endpoint returns a list, the list has at most
  min(limit, 200) alerts and is the beginning of the alert log read from its newest entry
  backwards (most recent first). A limit above 200 is refused, so no list is returned.
\<close>

theorem alerts_limit_bound:
  "(get_alerts limit_param alert_log = Inr alerts \<longrightarrow>
      length alerts \<le> min (nat (effective_limit limit_param)) 200 \<and>
      alerts = take (length alerts) (rev alert_log)) \<and>
   (200 < effective_limit limit_param \<longrightarrow>
      get_alerts limit_param alert_log = Inl Unprocessable_Entity)"
  by (auto simp: get_alerts_def store_get_alerts_def Let_def take_min_length split: if_splits)

theorem alerts_limit_bound_witness:
  "get_alerts (Some 2) demo_log =
     Inr [speed_alert demo_telemetry ''id-3'', battery_alert demo_telemetry 10 80 70 ''id-2''] \<and>
   length [speed_alert demo_telemetry ''id-3'', battery_alert demo_telemetry 10 80 70 ''id-2'']
     \<le> min (nat (effective_limit (Some 2))) 200 \<and>
   200 < effective_limit (Some 201) \<and>
   get_alerts (Some 201) demo_log = Inl Unprocessable_Entity"
proof -
  have g: "get_alerts (Some 2) demo_log =
     Inr [speed_alert demo_telemetry ''id-3'', battery_alert demo_telemetry 10 80 70 ''id-2'']"
    by (simp add: get_alerts_def store_get_alerts_def effective_limit_def demo_log_def Let_def)
  have l: "200 < effective_limit (Some 201)"
    by (simp add: effective_limit_def)
  from g alerts_limit_bound [of "Some 2" demo_log
        "[speed_alert demo_telemetry ''id-3'', battery_alert demo_telemetry 10 80 70 ''id-2'']"]
  have b: "length [speed_alert demo_telemetry ''id-3'',
        battery_alert demo_telemetry 10 80 70 ''id-2'']
     \<le> min (nat (effective_limit (Some 2))) 200"
    by blast
  from l alerts_limit_bound [of "Some 201" demo_log]
  have r: "get_alerts (Some 201) demo_log = Inl Unprocessable_Entity"
    by blast
  from g b l r show ?thesis by blast
qed

end
